theory Spec2Isabelle
  imports Main "HOL-Library.Sublist"
begin

section \<open>JavaScript values used by the orchestration engine\<close>

text \<open>
  Strings are lists of 8-bit characters; the texts of the development are ASCII. The
  platform functions the sources call (\<^verbatim>\<open>String.prototype.includes\<close>,
  \<^verbatim>\<open>toLowerCase\<close>, \<^verbatim>\<open>trim\<close>, template literals) are written out as
  list functions.
\<close>

fun str_includes :: "string \<Rightarrow> string \<Rightarrow> bool" where
  "str_includes [] p = (p = [])"
| "str_includes (c # cs) p = (prefix p (c # cs) \<or> str_includes cs p)"



text \<open>The decimal rendering of a number inside a template literal.\<close>

fun decimal :: "nat \<Rightarrow> string" where
  "decimal n =
     (if n < 10 then [''0123456789'' ! n]
      else decimal (n div 10) @ [''0123456789'' ! (n mod 10)])"

declare decimal.simps [simp del]

text \<open>
  What a \<^verbatim>\<open>throw\<close> can carry. \<^verbatim>\<open>AppError\<close> (src/types/errors.ts) and its
  subclasses keep the constructor name, the message, \<^verbatim>\<open>isOperational\<close>,
  \<^verbatim>\<open>httpCode\<close> and the context object; the \<^verbatim>\<open>executionLog\<close> property the
  orchestrator adds later is kept beside the value, in the result of the run. A value that
  is not an \<^verbatim>\<open>Error\<close> instance is kept by its \<^verbatim>\<open>String(...)\<close> rendering.
\<close>

datatype ctx_value = CStr string | CNum int | CList "string list"

datatype thrown =
    Error string
  | AppError string string bool nat "(string \<times> ctx_value) list"
  | NonError string






section \<open>Model Invoker: callGemini (src/llm/gemini-client.ts)\<close>

text \<open>
  The remote service is an oracle. \<open>generateContent r k\<close> is what the \<open>k\<close>-th call of
  \<^verbatim>\<open>model.generateContent(prompt)\<close> does during one invocation of
  \<^verbatim>\<open>callGemini\<close>: it throws, or it answers with a response. \<open>elapsedMs r k\<close> is
  the wall-clock time the \<open>k\<close>-th attempt took. The prompt and the generation options only
  travel to the remote service, whose behaviour on them is the oracle.
\<close>

record candidate =
  finishReason :: "string option"

record usageMetadata =
  promptTokenCount :: "nat option"
  candidatesTokenCount :: "nat option"
  totalTokenCount :: "nat option"

record response =
  candidates :: "candidate list option"
  responseText :: "thrown + string"
  usageMetadata :: "usageMetadata option"

record remote =
  generateContent :: "nat \<Rightarrow> thrown + response"
  elapsedMs :: "nat \<Rightarrow> int"





















section \<open>Structured-Text Extractor: extractJSON (src/orchestrator/json-parser.ts)\<close>

subsection \<open>The regular-expression rewrites\<close>

text \<open>
  \<^verbatim>\<open>\s\<close> of a JavaScript regular expression, and the characters
  \<^verbatim>\<open>String.prototype.trim\<close> strips, among 8-bit characters: tab, line feed,
  vertical tab, form feed, carriage return, space and the no-break space.
\<close>

definition isSpace :: "char \<Rightarrow> bool" where
  "isSpace c = (c \<in> {CHR 0x09, CHR 0x0A, CHR 0x0B, CHR 0x0C, CHR 0x0D, CHR 0x20, CHR 0xA0})"

text \<open>The characters \<^verbatim>\<open>.\<close> does not match, before which \<^verbatim>\<open>$\<close> matches under the m flag.\<close>

definition isLineTerminator :: "char \<Rightarrow> bool" where
  "isLineTerminator c = (c \<in> {CHR 0x0A, CHR 0x0D})"

definition trim :: "string \<Rightarrow> string" where
  "trim s = rev (dropWhile isSpace (rev (dropWhile isSpace s)))"

text \<open>
  \<^verbatim>\<open>s.replace(/P\s*/g, '')\<close> for a literal, non-empty \<open>P\<close>: scanning from the left,
  every occurrence of \<open>P\<close> is deleted together with the white space after it.
\<close>

function removeWithSpace :: "string \<Rightarrow> string \<Rightarrow> string" where
  "removeWithSpace p [] = []"
| "removeWithSpace p (c # cs) =
     (if p \<noteq> [] \<and> prefix p (c # cs)
      then removeWithSpace p (dropWhile isSpace (drop (length p - 1) cs))
      else c # removeWithSpace p cs)"
  by pat_completeness auto
termination
proof -
  have shorter: "length (dropWhile P (drop n xs)) < Suc (length xs)" for P :: "char \<Rightarrow> bool" and n xs
    using length_dropWhile_le [of P "drop n xs"] by simp
  show ?thesis
    by (relation "measure (\<lambda>(p, s). length s)") (auto simp: shorter)
qed

text \<open>
  \<^verbatim>\<open>s.replace(/\/\/.*$/gm, '')\<close>: from every \<^verbatim>\<open>//\<close> the rest of the line is deleted
  (the greedy \<^verbatim>\<open>.*\<close> stops at the end of the text or before a line terminator, where
  \<^verbatim>\<open>$\<close> matches).
\<close>

function removeLineComments :: "string \<Rightarrow> string" where
  "removeLineComments [] = []"
| "removeLineComments (c # cs) =
     (if prefix ''//'' (c # cs)
      then removeLineComments (dropWhile (\<lambda>d. \<not> isLineTerminator d) (drop 1 cs))
      else c # removeLineComments cs)"
  by pat_completeness auto
termination
proof -
  have shorter: "length (dropWhile P (drop n xs)) < Suc (length xs)" for P :: "char \<Rightarrow> bool" and n xs
    using length_dropWhile_le [of P "drop n xs"] by simp
  show ?thesis
    by (relation "measure length") (auto simp: shorter)
qed

text \<open>The text after the first occurrence of \<open>p\<close>, when there is one.\<close>

fun afterFirst :: "string \<Rightarrow> string \<Rightarrow> string option" where
  "afterFirst p [] = (if p = [] then Some [] else None)"
| "afterFirst p (c # cs) =
     (if prefix p (c # cs) then Some (drop (length p) (c # cs)) else afterFirst p cs)"

text \<open>
  \<^verbatim>\<open>s.replace(/\/\*[\s\S]*?\*\//g, '')\<close>: a \<^verbatim>\<open>/*\<close> is deleted up to and including the
  first \<^verbatim>\<open>*/\<close> after it; a \<^verbatim>\<open>/*\<close> that is never closed stays.
\<close>

function removeBlockComments :: "string \<Rightarrow> string" where
  "removeBlockComments [] = []"
| "removeBlockComments (c # cs) =
     (if prefix ''/*'' (c # cs) then
        (case afterFirst ''*/'' (drop 1 cs) of
           Some rest \<Rightarrow> removeBlockComments rest
         | None \<Rightarrow> c # removeBlockComments cs)
      else c # removeBlockComments cs)"
  by pat_completeness auto
termination
proof -
  have bound: "length r \<le> length s" if "afterFirst p s = Some r" for p s r
    using that by (induction s) (auto split: if_splits)
  have shorter: "length r < Suc (length cs)" if "afterFirst p (drop n cs) = Some r" for p n cs r
    using bound [OF that] by simp
  show ?thesis
    by (relation "measure length") (auto dest!: shorter)
qed

text \<open>
  \<^verbatim>\<open>s.replace(/,(\s*[}\]])/g, '$1')\<close>: a comma followed by optional white space and a
  closing brace or bracket is deleted; the white space and the closer stay.
\<close>

definition isCloser :: "char \<Rightarrow> bool" where
  "isCloser c = (c = CHR ''}'' \<or> c = CHR '']'')"

function removeTrailingCommas :: "string \<Rightarrow> string" where
  "removeTrailingCommas [] = []"
| "removeTrailingCommas (c # cs) =
     (if c = CHR '','' then
        (case dropWhile isSpace cs of
           [] \<Rightarrow> c # removeTrailingCommas cs
         | d # rest \<Rightarrow>
             if isCloser d then takeWhile isSpace cs @ d # removeTrailingCommas rest
             else c # removeTrailingCommas cs)
      else c # removeTrailingCommas cs)"
  by pat_completeness auto
termination
proof -
  have shorter: "length rest < Suc (length cs)" if "dropWhile isSpace cs = d # rest" for cs d rest
    using length_dropWhile_le [of isSpace cs] that by simp
  show ?thesis
    by (relation "measure length") (auto simp: shorter)
qed

text \<open>Lines 5-12: the four clean-up steps, in the order of the source.\<close>

definition cleanText :: "string \<Rightarrow> string" where
  "cleanText text0 =
     removeTrailingCommas
       (removeBlockComments
         (removeLineComments
           (removeWithSpace ''```'' (removeWithSpace ''```json'' text0))))"

text \<open>
  \<^verbatim>\<open>cleaned.match(/\{[\s\S]*\}/)\<close>: from the first opening brace to the last closing
  brace after it; no match when no closing brace follows the first opening one.
\<close>

definition firstObjectLiteral :: "string \<Rightarrow> string option" where
  "firstObjectLiteral s =
     (let fromBrace = dropWhile (\<lambda>c. c \<noteq> CHR ''{'') s;
          upToLast = rev (dropWhile (\<lambda>c. c \<noteq> CHR ''}'') (rev fromBrace))
      in if upToLast = [] then None else Some upToLast)"


subsection \<open>JSON.parse\<close>

text \<open>
  The platform's \<^verbatim>\<open>JSON.parse\<close>, after the JSON grammar (ECMA-404) that ECMAScript
  prescribes for it: a lexer and a stack parser, each one pass over its input. A number is
  kept as its lexeme (no rounding to a double), an object as its members in the order
  of the text. A \<^verbatim>\<open>\uXXXX\<close> escape is reduced to the 8-bit characters of this
  development.
\<close>

datatype json =
    JNull
  | JBool bool
  | JNumber string
  | JString string
  | JArray "json list"
  | JObject "(string \<times> json) list"

datatype token =
    TLBrace | TRBrace | TLBrack | TRBrack | TComma | TColon
  | TString string | TNumber string | TTrue | TFalse | TNull

datatype lex_state =
    LIdle
  | LStr string
  | LEsc string
  | LHex string "nat list"
  | LNum string
  | LLit string token

datatype lex_action = Go lex_state | Emit token | Skip | Bad

definition isDigit :: "char \<Rightarrow> bool" where
  "isDigit c = (c \<in> set ''0123456789'')"

definition isJsonSpace :: "char \<Rightarrow> bool" where
  "isJsonSpace c = (c \<in> {CHR 0x09, CHR 0x0A, CHR 0x0D, CHR 0x20})"

definition isNumberChar :: "char \<Rightarrow> bool" where
  "isNumberChar c = (isDigit c \<or> c \<in> set ''+-.eE'')"

definition idleStep :: "char \<Rightarrow> lex_action" where
  "idleStep c =
     (if c = CHR ''{'' then Emit TLBrace
      else if c = CHR ''}'' then Emit TRBrace
      else if c = CHR ''['' then Emit TLBrack
      else if c = CHR '']'' then Emit TRBrack
      else if c = CHR '','' then Emit TComma
      else if c = CHR '':'' then Emit TColon
      else if c = CHR 0x22 then Go (LStr [])
      else if c = CHR ''t'' then Go (LLit ''rue'' TTrue)
      else if c = CHR ''f'' then Go (LLit ''alse'' TFalse)
      else if c = CHR ''n'' then Go (LLit ''ull'' TNull)
      else if c = CHR ''-'' \<or> isDigit c then Go (LNum [c])
      else if isJsonSpace c then Skip
      else Bad)"

definition unescape :: "char \<Rightarrow> char option" where
  "unescape c =
     (if c = CHR 0x22 \<or> c = CHR 0x5C \<or> c = CHR ''/'' then Some c
      else if c = CHR ''b'' then Some (CHR 0x08)
      else if c = CHR ''f'' then Some (CHR 0x0C)
      else if c = CHR ''n'' then Some (CHR 0x0A)
      else if c = CHR ''r'' then Some (CHR 0x0D)
      else if c = CHR ''t'' then Some (CHR 0x09)
      else None)"

definition hexValue :: "char \<Rightarrow> nat option" where
  "hexValue c =
     (let n = (of_char c :: nat) in
      if 48 \<le> n \<and> n \<le> 57 then Some (n - 48)
      else if 65 \<le> n \<and> n \<le> 70 then Some (n - 55)
      else if 97 \<le> n \<and> n \<le> 102 then Some (n - 87)
      else None)"

text \<open>The JSON number grammar: \<^verbatim>\<open>-?(0|[1-9][0-9]*)(\.[0-9]+)?([eE][+-]?[0-9]+)?\<close>.\<close>

definition validExponent :: "string \<Rightarrow> bool" where
  "validExponent s =
     (case s of
        [] \<Rightarrow> True
      | e # r \<Rightarrow>
          (e = CHR ''e'' \<or> e = CHR ''E'') \<and>
          (let ds = (case r of [] \<Rightarrow> [] | g # r' \<Rightarrow> if g = CHR ''+'' \<or> g = CHR ''-'' then r' else r)
           in ds \<noteq> [] \<and> list_all isDigit ds))"

definition validFraction :: "string \<Rightarrow> bool" where
  "validFraction s =
     (case s of
        [] \<Rightarrow> True
      | c # r \<Rightarrow>
          if c = CHR ''.''
          then takeWhile isDigit r \<noteq> [] \<and> validExponent (dropWhile isDigit r)
          else validExponent s)"

definition validNumber :: "string \<Rightarrow> bool" where
  "validNumber s =
     (case (case s of [] \<Rightarrow> [] | c # r \<Rightarrow> if c = CHR ''-'' then r else s) of
        [] \<Rightarrow> False
      | d # r \<Rightarrow>
          if d = CHR ''0'' then validFraction r
          else isDigit d \<and> validFraction (dropWhile isDigit r))"

fun scan :: "lex_state \<Rightarrow> string \<Rightarrow> token list option" where
  "scan LIdle [] = Some []"
| "scan (LNum acc) [] = (if validNumber acc then Some [TNumber acc] else None)"
| "scan (LStr acc) [] = None"
| "scan (LEsc acc) [] = None"
| "scan (LHex acc ds) [] = None"
| "scan (LLit rest t) [] = None"
| "scan LIdle (c # cs) =
     (case idleStep c of
        Go st \<Rightarrow> scan st cs
      | Emit t \<Rightarrow> map_option ((#) t) (scan LIdle cs)
      | Skip \<Rightarrow> scan LIdle cs
      | Bad \<Rightarrow> None)"
| "scan (LNum acc) (c # cs) =
     (if isNumberChar c then scan (LNum (acc @ [c])) cs
      else if validNumber acc then
        map_option ((#) (TNumber acc))
          (case idleStep c of
             Go st \<Rightarrow> scan st cs
           | Emit t \<Rightarrow> map_option ((#) t) (scan LIdle cs)
           | Skip \<Rightarrow> scan LIdle cs
           | Bad \<Rightarrow> None)
      else None)"
| "scan (LStr acc) (c # cs) =
     (if c = CHR 0x22 then map_option ((#) (TString acc)) (scan LIdle cs)
      else if c = CHR 0x5C then scan (LEsc acc) cs
      else if (of_char c :: nat) < 32 then None
      else scan (LStr (acc @ [c])) cs)"
| "scan (LEsc acc) (c # cs) =
     (if c = CHR ''u'' then scan (LHex acc []) cs
      else (case unescape c of
              Some d \<Rightarrow> scan (LStr (acc @ [d])) cs
            | None \<Rightarrow> None))"
| "scan (LHex acc ds) (c # cs) =
     (case hexValue c of
        None \<Rightarrow> None
      | Some v \<Rightarrow>
          if length ds = 3
          then scan (LStr (acc @ [char_of (foldl (\<lambda>a d. 16 * a + d) 0 (ds @ [v]))])) cs
          else scan (LHex acc (ds @ [v])) cs)"
| "scan (LLit rest t) (c # cs) =
     (case rest of
        [] \<Rightarrow> None
      | d # ds \<Rightarrow>
          if c \<noteq> d then None
          else if ds = [] then map_option ((#) t) (scan LIdle cs)
          else scan (LLit ds t) cs)"

datatype frame = FArray "json list" | FObject "(string \<times> json) list" "string option"

datatype parse_state =
    PValue | PArrayFirst | PObjectFirst | PObjectKey | PColon | PAfter | PDone json

text \<open>A finished value goes into the container on top of the stack, or ends the text.\<close>

fun deliver :: "json \<Rightarrow> frame list \<Rightarrow> (parse_state \<times> frame list) option" where
  "deliver v [] = Some (PDone v, [])"
| "deliver v (FArray els # st) = Some (PAfter, FArray (els @ [v]) # st)"
| "deliver v (FObject ms (Some k) # st) = Some (PAfter, FObject (ms @ [(k, v)]) None # st)"
| "deliver v (FObject ms None # st) = None"

fun startValue :: "token \<Rightarrow> frame list \<Rightarrow> (parse_state \<times> frame list) option" where
  "startValue TLBrack st = Some (PArrayFirst, FArray [] # st)"
| "startValue TLBrace st = Some (PObjectFirst, FObject [] None # st)"
| "startValue (TString s) st = deliver (JString s) st"
| "startValue (TNumber n) st = deliver (JNumber n) st"
| "startValue TTrue st = deliver (JBool True) st"
| "startValue TFalse st = deliver (JBool False) st"
| "startValue TNull st = deliver JNull st"
| "startValue _ st = None"

fun closeArray :: "frame list \<Rightarrow> (parse_state \<times> frame list) option" where
  "closeArray (FArray els # st) = deliver (JArray els) st"
| "closeArray _ = None"

fun closeObject :: "frame list \<Rightarrow> (parse_state \<times> frame list) option" where
  "closeObject (FObject ms None # st) = deliver (JObject ms) st"
| "closeObject _ = None"

fun setKey :: "string \<Rightarrow> frame list \<Rightarrow> (parse_state \<times> frame list) option" where
  "setKey k (FObject ms None # st) = Some (PColon, FObject ms (Some k) # st)"
| "setKey k _ = None"

fun parseStep :: "parse_state \<Rightarrow> frame list \<Rightarrow> token \<Rightarrow> (parse_state \<times> frame list) option" where
  "parseStep PValue st t = startValue t st"
| "parseStep PArrayFirst st t = (if t = TRBrack then closeArray st else startValue t st)"
| "parseStep PObjectFirst st t =
     (case t of TString k \<Rightarrow> setKey k st | TRBrace \<Rightarrow> closeObject st | _ \<Rightarrow> None)"
| "parseStep PObjectKey st t = (case t of TString k \<Rightarrow> setKey k st | _ \<Rightarrow> None)"
| "parseStep PColon st t = (if t = TColon then Some (PValue, st) else None)"
| "parseStep PAfter st t =
     (case t of
        TComma \<Rightarrow> (case st of
                     FArray _ # _ \<Rightarrow> Some (PValue, st)
                   | FObject _ _ # _ \<Rightarrow> Some (PObjectKey, st)
                   | [] \<Rightarrow> None)
      | TRBrack \<Rightarrow> closeArray st
      | TRBrace \<Rightarrow> closeObject st
      | _ \<Rightarrow> None)"
| "parseStep (PDone v) st t = None"

fun parseTokens :: "parse_state \<Rightarrow> frame list \<Rightarrow> token list \<Rightarrow> json option" where
  "parseTokens (PDone v) st [] = Some v"
| "parseTokens _ st [] = None"
| "parseTokens ps st (t # ts) =
     (case parseStep ps st t of
        None \<Rightarrow> None
      | Some (ps', st') \<Rightarrow> parseTokens ps' st' ts)"

text \<open>\<open>None\<close> is the \<^verbatim>\<open>SyntaxError\<close> that \<^verbatim>\<open>JSON.parse\<close> throws.\<close>

definition JSON_parse :: "string \<Rightarrow> json option" where
  "JSON_parse s = (case scan LIdle s of None \<Rightarrow> None | Some ts \<Rightarrow> parseTokens PValue [] ts)"


subsection \<open>extractJSON\<close>

text \<open>
  A zod schema is the function its \<^verbatim>\<open>parse\<close> method computes: the validated output,
  or the issues of the \<^verbatim>\<open>ZodError\<close> it throws, each a path and a message. The optional
  parameter \<^verbatim>\<open>schema?: z.ZodSchema<T>\<close> is either absent, and then the unchecked cast
  \<^verbatim>\<open>parsed as T\<close> is what is returned, or a schema.
\<close>

type_synonym ZodIssue = "string list \<times> string"

type_synonym 'a ZodSchema = "json \<Rightarrow> ZodIssue list + 'a"

datatype 'a schema_arg = NoSchema "json \<Rightarrow> 'a" | Zod "'a ZodSchema"

fun joinWith :: "string \<Rightarrow> string list \<Rightarrow> string" where
  "joinWith sep [] = []"
| "joinWith sep [x] = x"
| "joinWith sep (x # y # ys) = x @ sep @ joinWith sep (y # ys)"

text \<open>
  \<^verbatim>\<open>e.issues.map(err => `${err.path.join('.')}: ${err.message}`).join(', ')\<close>
\<close>

definition formatIssues :: "ZodIssue list \<Rightarrow> string" where
  "formatIssues issues = joinWith '', '' (map (\<lambda>(path, msg). joinWith ''.'' path @ '': '' @ msg) issues)"

definition validationFailed :: "ZodIssue list \<Rightarrow> thrown" where
  "validationFailed issues = Error (''JSON validation failed: '' @ formatIssues issues)"

text \<open>The specific error of lines 28-32.\<close>

definition arrayError :: "nat \<Rightarrow> thrown" where
  "arrayError n =
     Error (''JSON validation failed: expected object, received array with '' @ decimal n @ '' elements'')"

text \<open>
  \<^verbatim>\<open>`JSON extraction failed: ${e2}\n\nOriginal text:\n${text.substring(0, 500)}...`\<close>,
  where \<open>e2\<close> is the \<^verbatim>\<open>SyntaxError\<close> of \<^verbatim>\<open>JSON.parse\<close>; the engine's wording
  after the error's name is left out.
\<close>

definition extractionFailed :: "string \<Rightarrow> thrown" where
  "extractionFailed text0 =
     Error (''JSON extraction failed: SyntaxError'' @ [CHR 0x0A, CHR 0x0A] @ ''Original text:'' @
            [CHR 0x0A] @ take 500 text0 @ ''...'')"

definition noValidJSON :: "string \<Rightarrow> thrown" where
  "noValidJSON text0 =
     Error (''No valid JSON found in response:'' @ [CHR 0x0A] @ take 500 text0 @ ''...'')"

text \<open>What leaves the first \<^verbatim>\<open>try\<close> block (lines 15-39) and reaches its \<^verbatim>\<open>catch\<close>.\<close>

datatype 'a attempt = Returned 'a | ThrewZodError "ZodIssue list" | ThrewOther thrown

text \<open>\<^verbatim>\<open>if (schema) { return schema.parse(parsed); } return parsed as T;\<close>\<close>

fun validated :: "'a schema_arg \<Rightarrow> json \<Rightarrow> 'a attempt" where
  "validated (NoSchema cast) parsed = Returned (cast parsed)"
| "validated (Zod schema) parsed =
     (case schema parsed of Inl issues \<Rightarrow> ThrewZodError issues | Inr v \<Rightarrow> Returned v)"

text \<open>Lines 22-25: an array with one element is replaced by that element.\<close>

fun unwrapSingle :: "json \<Rightarrow> json" where
  "unwrapSingle (JArray [x]) = x"
| "unwrapSingle v = v"

definition directParse :: "string \<Rightarrow> 'a schema_arg \<Rightarrow> 'a attempt" where
  "directParse cleaned schema =
     (case JSON_parse (trim cleaned) of
        None \<Rightarrow> ThrewOther (Error ''SyntaxError'')
      | Some parsed \<Rightarrow>
          (case unwrapSingle parsed of
             JArray xs \<Rightarrow> ThrewOther (arrayError (length xs))
           | v \<Rightarrow> validated schema v))"

text \<open>Lines 48-70: the fallback of the \<^verbatim>\<open>catch\<close> block.\<close>

definition fallbackParse :: "string \<Rightarrow> string \<Rightarrow> 'a schema_arg \<Rightarrow> thrown + 'a" where
  "fallbackParse text0 cleaned schema =
     (case firstObjectLiteral cleaned of
        None \<Rightarrow> Inl (noValidJSON text0)
      | Some m \<Rightarrow>
          (case JSON_parse m of
             None \<Rightarrow> Inl (extractionFailed text0)
           | Some parsed \<Rightarrow>
               (case validated schema parsed of
                  Returned v \<Rightarrow> Inr v
                | ThrewZodError issues \<Rightarrow> Inl (validationFailed issues)
                | ThrewOther e \<Rightarrow> Inl (extractionFailed text0))))"

definition extractJSON :: "string \<Rightarrow> 'a schema_arg \<Rightarrow> thrown + 'a" where
  "extractJSON text0 schema =
     (let cleaned = cleanText text0 in
      case directParse cleaned schema of
        Returned v \<Rightarrow> Inr v
      | ThrewZodError issues \<Rightarrow> Inl (validationFailed issues)
      | ThrewOther e \<Rightarrow> fallbackParse text0 cleaned schema)"


section \<open>Phase Pipeline: generateRecipe (src/orchestrator/orchestrator.ts)\<close>

subsection \<open>Data (src/types/index.ts, src/types/debug-events.ts)\<close>

record Constraints =
  dietary :: "string list option"
  equipment :: "string list option"
  skill :: "string option"
  time :: "string option"
  servings :: "nat option"

record CreativeBrief =
  title :: string
  scope :: string
  constraints :: "Constraints option"
  creativeFocus :: string
  additionalContext :: "string option"

record SpecialistAssignment =
  name :: string
  responsibilities :: "string list"
  priority :: int

record TaskMap =
  specialists :: "SpecialistAssignment list"
  estimatedComplexity :: string

record SpecialistOnePager =
  specialist :: string
  section' :: string
  notes' :: string

text \<open>
  The recipe is kept as the JSON value the recipe schema returns: its fields play no part
  in the orchestration.
\<close>

type_synonym Recipe = json







text \<open>Every place of the source that reads the clock.\<close>

datatype clock_site =
    LogStart | OrchestratorStart
  | PlanningStart | PlanningResponded | PlanningEnd | PlanningStamp
  | SpecialistStart nat | SpecialistResponded nat | SpecialistEnd nat | SpecialistStamp nat
  | SpecialistsDone
  | SynthesisStart | SynthesisResponded | SynthesisEnd | SynthesisStamp
  | LogEnd | TotalEnd
  | CatchLogEnd | CatchTotalEnd | ErrorStamp

text \<open>What \<^verbatim>\<open>loadPrompt\<close> (src/prompts/prompt-loader.ts) finds in the file system.\<close>

datatype prompt_failure = NotFound | ReadFailed string | LookupFailed string

text \<open>
  The surroundings of one run: the prompt files, the remote service behind each
  invocation (as it answers the prompt rendered from the given data), the clock, and the
  zod schemas of src/types/validation.ts, whose content is left open. \<open>settledAfter\<close> is
  the time, in milliseconds after the HTTP route armed its timer, at which the promise of
  \<^verbatim>\<open>generateRecipe\<close> settles and the route's handler continues.
\<close>

record world =
  promptFile :: "string \<Rightarrow> prompt_failure + string"
  planningService :: "CreativeBrief \<Rightarrow> remote"
  specialistService :: "CreativeBrief \<Rightarrow> nat \<Rightarrow> SpecialistAssignment \<Rightarrow> remote"
  synthesisService :: "CreativeBrief \<Rightarrow> SpecialistOnePager list \<Rightarrow> remote"
  now :: "clock_site \<Rightarrow> int"
  CreativeBriefSchema :: "CreativeBrief ZodSchema"
  TaskMapSchema :: "TaskMap ZodSchema"
  SpecialistOnePagerSchema :: "SpecialistOnePager ZodSchema"
  RecipeSchema :: "Recipe ZodSchema"
  settledAfter :: int


subsection \<open>The phases\<close>
















section \<open>The HTTP route POST /api/generate-recipe (src/server.ts)\<close>







subsection \<open>The one-pager schema (src/types/validation.ts)\<close>

text \<open>
  \<^verbatim>\<open>z.object({ specialist: z.string(), section: z.string(), notes: z.string() })\<close>. Of
  two members with the same key \<^verbatim>\<open>JSON.parse\<close> keeps the last. The issues name the
  offending keys; zod's wording of them is not reproduced.
\<close>

definition field :: "(string \<times> json) list \<Rightarrow> string \<Rightarrow> json option" where
  "field ms k = map_of (rev ms) k"

definition stringIssue :: "(string \<times> json) list \<Rightarrow> string \<Rightarrow> ZodIssue list" where
  "stringIssue ms k =
     (case field ms k of
        Some (JString s) \<Rightarrow> []
      | Some other \<Rightarrow> [([k], ''Expected string'')]
      | None \<Rightarrow> [([k], ''Required'')])"

definition specialistOnePagerSchema :: "SpecialistOnePager ZodSchema" where
  "specialistOnePagerSchema v =
     (case v of
        JObject ms \<Rightarrow>
          (case (field ms ''specialist'', field ms ''section'', field ms ''notes'') of
             (Some (JString a), Some (JString b), Some (JString c)) \<Rightarrow>
               Inr \<lparr>specialist = a, section' = b, notes' = c\<rparr>
           | other \<Rightarrow>
               Inl (stringIssue ms ''specialist'' @ stringIssue ms ''section'' @ stringIssue ms ''notes''))
      | other \<Rightarrow> Inl [([], ''Expected object'')])"

section \<open>Vocabulary of the properties\<close>



fun isArray :: "json \<Rightarrow> bool" where
  "isArray (JArray xs) = True"
| "isArray v = False"




section \<open>Auxiliary definitions of the proofs\<close>










section \<open>Concrete surroundings used by the examples\<close>

definition always429 :: remote where
  "always429 = \<lparr>generateContent = (\<lambda>k. Inl (Error ''429 Too Many Requests'')), elapsedMs = (\<lambda>k. 7)\<rparr>"

definition okResponse :: "string \<Rightarrow> response" where
  "okResponse t =
     \<lparr>candidates = Some [\<lparr>finishReason = Some ''STOP''\<rparr>], responseText = Inr t, usageMetadata = None\<rparr>"

definition answering :: "string \<Rightarrow> remote" where
  "answering t = \<lparr>generateContent = (\<lambda>k. Inr (okResponse t)), elapsedMs = (\<lambda>k. 5)\<rparr>"






definition saucier :: SpecialistAssignment where
  "saucier = \<lparr>name = ''saucier'', responsibilities = [''sauce''], priority = 1\<rparr>"

definition saucierOnly :: TaskMap where
  "saucierOnly = \<lparr>specialists = [saucier], estimatedComplexity = ''simple''\<rparr>"

definition anyBrief :: CreativeBrief where
  "anyBrief = \<lparr>title = ''X'', scope = ''single_recipe'', constraints = None,
                creativeFocus = ''modern'', additionalContext = None\<rparr>"

definition plainText :: string where
  \<open>plainText = '' {"specialist":"saucier","section":"sauce","notes":"reduce by half"} ''\<close>

definition plainValue :: json where
  "plainValue = JObject [(''specialist'', JString ''saucier''), (''section'', JString ''sauce''),
                       (''notes'', JString ''reduce by half'')]"




definition fenceText :: string where \<open>fenceText = ''{"a":"```json"}''\<close>

definition slashText :: string where \<open>slashText = ''{"u":"//"}''\<close>

definition kitchen :: world where
  \<open>kitchen =
     \<lparr>promptFile = (\<lambda>n. Inr ''TASK''),
      planningService = (\<lambda>b. answering ''{}''),
      specialistService = (\<lambda>b i spec. answering plainText),
      synthesisService = (\<lambda>b ps. answering ''{"id":"r1"}''),
      now = (\<lambda>site. 0),
      CreativeBriefSchema = (\<lambda>v. Inr anyBrief),
      TaskMapSchema = (\<lambda>v. Inr saucierOnly),
      SpecialistOnePagerSchema = specialistOnePagerSchema,
      RecipeSchema = Inr,
      settledAfter = 0\<rparr>\<close>

definition brokenKitchen :: world where
  "brokenKitchen = kitchen\<lparr>specialistService := (\<lambda>b i spec. always429)\<rparr>"
















section \<open>The retry loop, unrolled\<close>







section \<open>The examples, evaluated\<close>

lemmas json_eval = JSON_parse_def idleStep_def isDigit_def isJsonSpace_def isNumberChar_def
  validNumber_def validFraction_def validExponent_def unescape_def

lemmas extract_eval = extractJSON_def cleanText_def directParse_def fallbackParse_def
  firstObjectLiteral_def trim_def isSpace_def isLineTerminator_def isCloser_def
  noValidJSON_def extractionFailed_def validationFailed_def arrayError_def







lemma parse_pair: \<open>JSON_parse ''[1,2]'' = Some (JArray [JNumber ''1'', JNumber ''2''])\<close>
  by (simp add: json_eval)

lemma extract_pair: \<open>extractJSON ''[1,2]'' sch = Inl (noValidJSON ''[1,2]'')\<close>
  by (simp add: extract_eval json_eval decimal.simps)




lemma extract_plainText_raw: "extractJSON plainText (NoSchema id) = Inr plainValue"
  by (simp add: plainText_def plainValue_def extract_eval json_eval)



lemma now_brokenKitchen [simp]: "now brokenKitchen site = 0"
  by (simp add: brokenKitchen_def kitchen_def)

lemma now_kitchen [simp]: "now kitchen site = 0"
  by (simp add: kitchen_def)











section \<open>Model Invoker: the retry policy\<close>



section \<open>Model Invoker: response validation\<close>
















section \<open>Extractor: arrays with several elements\<close>

lemma set_decimal: "set (decimal n) \<subseteq> set ''0123456789''"
proof (induction n rule: decimal.induct)
  case (1 n)
  have digit: "''0123456789'' ! k \<in> set ''0123456789''" if "k < 10" for k
    using that by (intro nth_mem) simp
  show ?case
  proof (cases "n < 10")
    case True
    then show ?thesis using digit [of n] by (subst decimal.simps) simp
  next
    case False
    have "n mod 10 < 10" by simp
    with False 1 digit [of "n mod 10"] show ?thesis by (subst decimal.simps) simp
  qed
qed

lemma colon_formatIssues: "issues \<noteq> [] \<Longrightarrow> CHR '':'' \<in> set (formatIssues issues)"
proof -
  have "xs \<noteq> [] \<Longrightarrow> (\<forall>x\<in>set xs. CHR '':'' \<in> set x) \<Longrightarrow> CHR '':'' \<in> set (joinWith sep xs)" for xs sep
    by (induction sep xs rule: joinWith.induct) auto
  moreover assume "issues \<noteq> []"
  ultimately show ?thesis
    unfolding formatIssues_def by (auto simp: case_prod_beta)
qed

lemma validationFailed_not_arrayError: "validationFailed issues \<noteq> arrayError n"
proof
  assume eq: "validationFailed issues = arrayError n"
  then have f: "formatIssues issues = ''expected object, received array with '' @ decimal n @ '' elements''"
    by (simp add: validationFailed_def arrayError_def)
  then have "issues \<noteq> []" by (auto simp: formatIssues_def)
  then have "CHR '':'' \<in> set (formatIssues issues)" by (rule colon_formatIssues)
  with f set_decimal [of n] show False by auto
qed

text \<open>
  The specific error of lines 28-32 is thrown inside the \<^verbatim>\<open>try\<close> block whose
  \<^verbatim>\<open>catch\<close> passes on nothing but a \<^verbatim>\<open>ZodError\<close>: it never leaves
  \<^verbatim>\<open>extractJSON\<close>, whatever the text and the schema.
\<close>

lemma extractJSON_never_arrayError: "extractJSON t sch \<noteq> Inl (arrayError n)"
proof -
  have a: "noValidJSON t \<noteq> arrayError n" by (simp add: noValidJSON_def arrayError_def)
  have b: "extractionFailed t \<noteq> arrayError n" by (simp add: extractionFailed_def arrayError_def)
  note c = validationFailed_not_arrayError
  show ?thesis
    by (auto simp: extractJSON_def fallbackParse_def Let_def a b c split: attempt.splits option.splits)
qed

text \<open>
  C4, on the code. The text \<^verbatim>\<open>[1,2]\<close> parses to an array of two elements, and
  \<^verbatim>\<open>extractJSON\<close> fails on it with the generic \<^verbatim>\<open>No valid JSON found in response\<close>
  error, not with the error that names the element count; on an array of two objects it
  fails with the generic \<^verbatim>\<open>JSON extraction failed\<close> error; and on an array of an
  object and a number it returns the object.
\<close>

theorem extractJSON_multi_element_array:
  \<open>JSON_parse ''[1,2]'' = Some (JArray [JNumber ''1'', JNumber ''2'']) \<and>
   extractJSON ''[1,2]'' (NoSchema id) = Inl (noValidJSON ''[1,2]'') \<and>
   noValidJSON ''[1,2]'' \<noteq> arrayError 2 \<and>
   extractJSON ''[{"a":1},{"b":2}]'' (NoSchema id) = Inl (extractionFailed ''[{"a":1},{"b":2}]'') \<and>
   extractJSON ''[{"a":1},2]'' (NoSchema id) = Inr (JObject [(''a'', JNumber ''1'')])\<close>
proof -
  have a: "noValidJSON ''[1,2]'' \<noteq> arrayError 2"
    by (simp add: noValidJSON_def arrayError_def)
  have b: \<open>extractJSON ''[{"a":1},{"b":2}]'' (NoSchema id) = Inl (extractionFailed ''[{"a":1},{"b":2}]'')\<close>
    by (simp add: extract_eval json_eval)
  have c: \<open>extractJSON ''[{"a":1},2]'' (NoSchema id) = Inr (JObject [(''a'', JNumber ''1'')])\<close>
    by (simp add: extract_eval json_eval)
  from parse_pair extract_pair [of "NoSchema id"] a b c show ?thesis by simp
qed

section \<open>Extractor: the rewrites do not know where a string starts\<close>

text \<open>
  C10. The text \<^verbatim>\<open>{"u":"//"}\<close> is well-formed JSON with \<^verbatim>\<open>//\<close> inside a string,
  and \<^verbatim>\<open>extractJSON\<close> without a schema fails on it; the text
  \<^verbatim>\<open>{"a":"```json"}\<close> is well-formed JSON with a code fence inside a string, and
  \<^verbatim>\<open>extractJSON\<close> without a schema returns for it a value that differs from the one
  \<^verbatim>\<open>JSON.parse\<close> yields.
\<close>

theorem rewrites_ignore_string_boundaries:
  \<open>str_includes slashText ''//'' \<and>
   JSON_parse slashText = Some (JObject [(''u'', JString ''//'')]) \<and>
   extractJSON slashText (NoSchema id) = Inl (noValidJSON slashText) \<and>
   str_includes fenceText ''```'' \<and>
   JSON_parse fenceText = Some (JObject [(''a'', JString ''```json'')]) \<and>
   extractJSON fenceText (NoSchema id) = Inr (JObject [(''a'', JString '''')])\<close>
proof -
  have a: "str_includes slashText ''//''" "str_includes fenceText ''```''"
    by (simp_all add: slashText_def fenceText_def)
  have b: \<open>JSON_parse slashText = Some (JObject [(''u'', JString ''//'')])\<close>
    by (simp add: slashText_def json_eval)
  have c: \<open>extractJSON slashText (NoSchema id) = Inl (noValidJSON slashText)\<close>
    by (simp add: slashText_def extract_eval json_eval)
  have d: \<open>JSON_parse fenceText = Some (JObject [(''a'', JString ''```json'')])\<close>
    by (simp add: fenceText_def json_eval)
  have e: \<open>extractJSON fenceText (NoSchema id) = Inr (JObject [(''a'', JString '''')])\<close>
    by (simp add: fenceText_def extract_eval json_eval)
  from a b c d e show ?thesis by simp
qed

section \<open>Extractor: texts that come back unchanged\<close>




















lemma unwrapSingle_not_array: "\<not> isArray v \<Longrightarrow> unwrapSingle v = v"
  by (cases v) auto





section \<open>Pipeline: listeners that return\<close>












section \<open>Pipeline: the Specialists phase\<close>










section \<open>Pipeline: the log at the end of a run\<close>












section \<open>Pipeline: one specialist that exhausts its retries\<close>




section \<open>The deadline of a request\<close>

























end
